theory Spec2Isabelle
  imports Main "HOL-Library.Sublist"
begin

section \<open>Strings and slices\<close>

text \<open>
  A Python \<^verbatim>\<open>str\<close> is a sequence of Unicode code points and \<^verbatim>\<open>len\<close> counts code
  points, so a string is modelled as a list of code point numbers.
\<close>

type_synonym codepoint = nat
type_synonym str = "codepoint list"

definition ascii :: "string \<Rightarrow> str" where
  "ascii s = map of_char s"

text \<open>
  \<^verbatim>\<open>text[lo:hi]\<close>: a negative bound counts from the end, and both bounds are clamped to
  \<open>0 .. len(text)\<close>; a slice never raises.
\<close>

definition slice_index :: "int \<Rightarrow> nat \<Rightarrow> nat" where
  "slice_index i n = (if i < 0 then nat (max (i + int n) 0) else min (nat i) n)"

definition py_slice :: "'a list \<Rightarrow> int \<Rightarrow> int \<Rightarrow> 'a list" where
  "py_slice xs lo hi =
     (let n = length xs; a = slice_index lo n; b = slice_index hi n
      in take (b - a) (drop a xs))"

section \<open>The chunker\<close>

text \<open>
  \<^verbatim>\<open>
  def chunk_text(text, chunk_size=800, overlap=120):
      chunks = []
      start = 0
      while start < len(text):
          end = start + chunk_size
          chunks.append(text[start:end])
          start = end - overlap
      return chunks
  \<close>
  The loop need not terminate (take \<open>overlap \<ge> chunk_size\<close> on a non-empty text), so
  it is a partial function: \<open>None\<close> is the run that never returns.
\<close>

partial_function (option) chunk_loop ::
  "str \<Rightarrow> int \<Rightarrow> int \<Rightarrow> int \<Rightarrow> str list \<Rightarrow> str list option" where
  "chunk_loop text chunk_size overlap start chunks =
     (if start < int (length text) then
        (let stop = start + chunk_size
         in chunk_loop text chunk_size overlap (stop - overlap)
              (chunks @ [py_slice text start stop]))
      else Some chunks)"

definition chunk_text :: "str \<Rightarrow> int \<Rightarrow> int \<Rightarrow> str list option" where
  "chunk_text text chunk_size overlap = chunk_loop text chunk_size overlap 0 []"

text \<open>
  The windows the loop appends from offset \<open>start\<close> on, as a total function: it is the
  loop's result whenever the stride \<open>chunk_size - overlap\<close> is positive
  (lemma \<open>chunk_loop_windows\<close>).
\<close>

function windows :: "str \<Rightarrow> int \<Rightarrow> int \<Rightarrow> int \<Rightarrow> str list" where
  "windows text chunk_size overlap start =
     (if start < int (length text) \<and> overlap < chunk_size then
        py_slice text start (start + chunk_size)
          # windows text chunk_size overlap (start + chunk_size - overlap)
      else [])"
  by pat_completeness auto
termination
  by (relation "measure (\<lambda>(text, c, ov, start). nat (int (length text) - start))") auto

declare windows.simps [simp del]

text \<open>Python's \<^verbatim>\<open>-(-a // b)\<close>: the ceiling of \<open>a / b\<close> for positive \<open>b\<close>.\<close>

definition ceil_div :: "int \<Rightarrow> int \<Rightarrow> int" where
  "ceil_div a b = - ((- a) div b)"

text \<open>
  The chunk count as the specification words it, \<open>ceil(max(L - O, 0) / (C - O))\<close>, kept apart
  from the code's count so that the two can be compared.
\<close>

definition spec_chunk_count :: "int \<Rightarrow> int \<Rightarrow> int \<Rightarrow> int" where
  "spec_chunk_count len chunk_size overlap =
     ceil_div (max (len - overlap) 0) (chunk_size - overlap)"

section \<open>Whitespace, joining, decimal numerals\<close>

text \<open>The code points for which \<^verbatim>\<open>str.isspace\<close> holds (CPython, Unicode 15).\<close>

definition isspace :: "codepoint \<Rightarrow> bool" where
  "isspace c =
     ((9 \<le> c \<and> c \<le> 13) \<or> (28 \<le> c \<and> c \<le> 32) \<or> c = 133 \<or> c = 160 \<or> c = 5760
      \<or> (8192 \<le> c \<and> c \<le> 8202) \<or> c = 8232 \<or> c = 8233 \<or> c = 8239 \<or> c = 8287
      \<or> c = 12288)"

text \<open>\<^verbatim>\<open>s.strip()\<close> removes leading and trailing whitespace.\<close>

definition py_strip :: "str \<Rightarrow> str" where
  "py_strip s = rev (dropWhile isspace (rev (dropWhile isspace s)))"

text \<open>\<^verbatim>\<open>sep.join(parts)\<close>.\<close>

fun py_join :: "str \<Rightarrow> str list \<Rightarrow> str" where
  "py_join sep [] = []"
| "py_join sep [x] = x"
| "py_join sep (x # y # ys) = x @ sep @ py_join sep (y # ys)"

text \<open>\<^verbatim>\<open>str(n)\<close> for a non-negative integer: its decimal digits.\<close>

fun str_of_nat :: "nat \<Rightarrow> str" where
  "str_of_nat n =
     (if n < 10 then [48 + n] else str_of_nat (n div 10) @ [48 + n mod 10])"

declare str_of_nat.simps [simp del]

section \<open>The text extractor\<close>

text \<open>
  \<^verbatim>\<open>
  def load_pdf_text(pdf_path):
      reader = PdfReader(pdf_path)
      pages = []
      for i, page in enumerate(reader.pages):
          text = page.extract_text()
          if text:
              pages.append(f"[Page {i+1}]\n{text}")
      return "\n".join(pages)
  \<close>
  The PDF library is outside the repository: what it extracts from each page, in page
  order, is the argument here (see \<open>read_pages\<close> below).
\<close>

definition page_block :: "nat \<Rightarrow> str \<Rightarrow> str" where
  "page_block i t = ascii ''[Page '' @ str_of_nat (i + 1) @ ascii '']'' @ [10] @ t"

fun load_loop :: "nat \<Rightarrow> str list \<Rightarrow> str list \<Rightarrow> str list" where
  "load_loop i [] pages = pages"
| "load_loop i (t # rest) pages =
     load_loop (i + 1) rest (if t \<noteq> [] then pages @ [page_block i t] else pages)"

definition load_pdf_text :: "str list \<Rightarrow> str" where
  "load_pdf_text page_texts = py_join [10] (load_loop 0 page_texts [])"

section \<open>The collaborators and the observable state\<close>

text \<open>
  An exception is a value. \<open>IndexError\<close> is what \<^verbatim>\<open>xs[0]\<close> raises on an empty list;
  \<open>External\<close> is whatever a collaborator (PDF reader, embedding service, vector store)
  raises.
\<close>

datatype exn = IndexError | External str

datatype 'a outcome = Returns 'a | Raises exn | Diverges

text \<open>The metadata dictionary \<^verbatim>\<open>{"source": filename, "chunk": i}\<close>.\<close>

record metadata =
  source :: str
  chunk :: nat

text \<open>The keyword arguments of one \<^verbatim>\<open>collection.add\<close> call.\<close>

record 'e add_args =
  add_documents :: "str list"
  add_metadatas :: "metadata list"
  add_embeddings :: "'e list"
  add_ids :: "str list"

text \<open>
  The \<^verbatim>\<open>input=\<close> argument of \<^verbatim>\<open>openai_client.embeddings.create\<close>: a list of
  strings when indexing, one string when retrieving.
\<close>

datatype embed_input = Batch "str list" | Single str

text \<open>
  The libraries the module calls, as parameters: \<open>'f\<close> is an uploaded file, \<open>'e\<close> an
  embedding vector, \<open>'s\<close> the state of the vector store's collection.
  \<^item> \<open>read_pages\<close>: \<^verbatim>\<open>PdfReader(path).pages\<close> with \<^verbatim>\<open>extract_text()\<close> of each page
    (the empty string for a page with no text), or the exception raised on the way;
  \<^item> \<open>path_stem\<close>: \<^verbatim>\<open>Path(filename).stem\<close>;
  \<^item> \<open>embeddings_create\<close>: the \<^verbatim>\<open>.embedding\<close> of each item of the response's
    \<^verbatim>\<open>.data\<close>, or the exception raised;
  \<^item> \<open>coll_count\<close>, \<open>coll_add\<close>, \<open>coll_query\<close>: the collection's \<^verbatim>\<open>count()\<close>,
    \<^verbatim>\<open>add(...)\<close> and \<^verbatim>\<open>query(query_embeddings=.., n_results=..)["documents"]\<close>.
\<close>

record ('f, 'e, 's) services =
  read_pages :: "'f \<Rightarrow> exn + str list"
  path_stem :: "str \<Rightarrow> str"
  embeddings_create :: "embed_input \<Rightarrow> exn + 'e list"
  coll_count :: "'s \<Rightarrow> nat"
  coll_add :: "'e add_args \<Rightarrow> 's \<Rightarrow> exn + 's"
  coll_query :: "'e list \<Rightarrow> nat \<Rightarrow> 's \<Rightarrow> exn + str list list"

text \<open>
  What a call can change: the collection, and the calls made to the embedding service
  and to \<^verbatim>\<open>collection.add\<close>, each logged in order with its arguments.
\<close>

record ('e, 's) world =
  collection :: 's
  embed_calls :: "embed_input list"
  add_calls :: "'e add_args list"

section \<open>The indexing pipeline\<close>

text \<open>
  \<^verbatim>\<open>
  for i, chunk in enumerate(chunks):
      if chunk.strip():
          all_chunks.append(chunk)
          metadatas.append({"source": filename, "chunk": i})
          ids.append(f"{stem}_{i}")
  \<close>
\<close>

definition chunk_id :: "str \<Rightarrow> nat \<Rightarrow> str" where
  "chunk_id stem i = stem @ ascii ''_'' @ str_of_nat i"

fun index_loop ::
  "str \<Rightarrow> str \<Rightarrow> nat \<Rightarrow> str list \<Rightarrow> str list \<times> metadata list \<times> str list
     \<Rightarrow> str list \<times> metadata list \<times> str list" where
  "index_loop filename stem i [] acc = acc"
| "index_loop filename stem i (c # rest) (all_chunks, metas, idents) =
     index_loop filename stem (i + 1) rest
       (if py_strip c \<noteq> [] then
          (all_chunks @ [c],
           metas @ [\<lparr>source = filename, chunk = i\<rparr>],
           idents @ [chunk_id stem i])
        else (all_chunks, metas, idents))"

text \<open>
  \<^verbatim>\<open>
  def index_pdf(pdf_file, filename):
      ...
      try:
          text = load_pdf_text(tmp_path)
          chunks = chunk_text(text)
          if not chunks:
              return 0
          all_chunks = []; metadatas = []; ids = []
          stem = Path(filename).stem
          for i, chunk in enumerate(chunks): ...
          if not all_chunks:
              return 0
          embeddings = openai_client.embeddings.create(
              model="text-embedding-3-large", input=all_chunks).data
          collection.add(documents=all_chunks, metadatas=metadatas,
                         embeddings=[e.embedding for e in embeddings], ids=ids)
          return len(all_chunks)
      finally:
          os.unlink(tmp_path)
  \<close>
  The temporary copy of the upload (written before the \<^verbatim>\<open>try\<close>, unlinked in the
  \<^verbatim>\<open>finally\<close>) is not part of the state: the reader is given the upload itself, and
  writing and unlinking the copy are taken to succeed.
\<close>

definition index_pdf ::
  "('f, 'e, 's) services \<Rightarrow> 'f \<Rightarrow> str \<Rightarrow> ('e, 's) world \<Rightarrow> nat outcome \<times> ('e, 's) world" where
  "index_pdf sv pdf_file filename w =
     (case read_pages sv pdf_file of
        Inl e \<Rightarrow> (Raises e, w)
      | Inr page_texts \<Rightarrow>
          (case chunk_text (load_pdf_text page_texts) 800 120 of
             None \<Rightarrow> (Diverges, w)
           | Some chunks \<Rightarrow>
               if chunks = [] then (Returns 0, w)
               else
                 (case index_loop filename (path_stem sv filename) 0 chunks ([], [], []) of
                    (all_chunks, metas, idents) \<Rightarrow>
                      if all_chunks = [] then (Returns 0, w)
                      else
                        (let w1 = w\<lparr>embed_calls := embed_calls w @ [Batch all_chunks]\<rparr>
                         in case embeddings_create sv (Batch all_chunks) of
                              Inl e \<Rightarrow> (Raises e, w1)
                            | Inr vectors \<Rightarrow>
                                (let args = \<lparr>add_documents = all_chunks,
                                             add_metadatas = metas,
                                             add_embeddings = vectors,
                                             add_ids = idents\<rparr>;
                                     w2 = w1\<lparr>add_calls := add_calls w1 @ [args]\<rparr>
                                 in case coll_add sv args (collection w2) of
                                      Inl e \<Rightarrow> (Raises e, w2)
                                    | Inr s \<Rightarrow>
                                        (Returns (length all_chunks),
                                         w2\<lparr>collection := s\<rparr>))))))"

text \<open>
  The indices, in the chunk sequence, of the chunks that pass \<^verbatim>\<open>if chunk.strip()\<close>.
\<close>

definition kept_indices :: "str list \<Rightarrow> nat list" where
  "kept_indices chunks = filter (\<lambda>i. py_strip (chunks ! i) \<noteq> []) [0..<length chunks]"

text \<open>
  The arguments \<open>index_pdf\<close> builds for \<^verbatim>\<open>collection.add\<close> from the chunks and the
  vectors the embedding service returned (lemma \<open>index_pdf_embedded\<close>).
\<close>

definition index_args ::
  "('f, 'e, 's) services \<Rightarrow> str \<Rightarrow> str list \<Rightarrow> 'e list \<Rightarrow> 'e add_args" where
  "index_args sv filename chunks vectors =
     \<lparr>add_documents = map (\<lambda>i. chunks ! i) (kept_indices chunks),
      add_metadatas = map (\<lambda>i. \<lparr>source = filename, chunk = i\<rparr>) (kept_indices chunks),
      add_embeddings = vectors,
      add_ids = map (\<lambda>i. chunk_id (path_stem sv filename) i) (kept_indices chunks)\<rparr>"

section \<open>The retrieval pipeline\<close>

text \<open>
  \<^verbatim>\<open>
  def retrieve_context(question):
      if collection.count() == 0:
          return "No documents have been indexed yet. Please upload some invoices first."
      q_embedding = openai_client.embeddings.create(
          model="text-embedding-3-large", input=question).data[0].embedding
      results = collection.query(query_embeddings=[q_embedding], n_results=4)
      if not results["documents"][0]:
          return "No relevant context found."
      return "\n\n".join(results["documents"][0])
  \<close>
\<close>

definition no_documents_indexed :: str where
  "no_documents_indexed =
     ascii ''No documents have been indexed yet. Please upload some invoices first.''"

definition no_relevant_context :: str where
  "no_relevant_context = ascii ''No relevant context found.''"

definition retrieve_context ::
  "('f, 'e, 's) services \<Rightarrow> str \<Rightarrow> ('e, 's) world \<Rightarrow> str outcome \<times> ('e, 's) world" where
  "retrieve_context sv question w =
     (if coll_count sv (collection w) = 0 then (Returns no_documents_indexed, w)
      else
        (let w1 = w\<lparr>embed_calls := embed_calls w @ [Single question]\<rparr>
         in case embeddings_create sv (Single question) of
              Inl e \<Rightarrow> (Raises e, w1)
            | Inr [] \<Rightarrow> (Raises IndexError, w1)
            | Inr (q_embedding # _) \<Rightarrow>
                (case coll_query sv [q_embedding] 4 (collection w1) of
                   Inl e \<Rightarrow> (Raises e, w1)
                 | Inr [] \<Rightarrow> (Raises IndexError, w1)
                 | Inr (docs # _) \<Rightarrow>
                     if docs = [] then (Returns no_relevant_context, w1)
                     else (Returns (py_join [10, 10] docs), w1))))"


section \<open>A concrete environment\<close>

text \<open>
  An instance of the collaborators on which the theorems below are run: the upload is
  the list of its page texts, the stem is the file name up to its first dot (the stem
  of a name with one dot and no directory part), a vector is the length of the text,
  and the collection is a list of (id, document) pairs that \<open>add\<close> appends to.
\<close>

definition stub_services :: "(str list, nat, (str \<times> str) list) services" where
  "stub_services =
     \<lparr>read_pages = Inr,
      path_stem = takeWhile (\<lambda>c. c \<noteq> 46),
      embeddings_create =
        (\<lambda>inp. case inp of Batch xs \<Rightarrow> Inr (map length xs) | Single x \<Rightarrow> Inr [length x]),
      coll_count = length,
      coll_add = (\<lambda>args s. Inr (s @ zip (add_ids args) (add_documents args))),
      coll_query = (\<lambda>qs k s. Inr [take k (map snd s)])\<rparr>"

definition empty_world :: "(nat, (str \<times> str) list) world" where
  "empty_world = \<lparr>collection = [], embed_calls = [], add_calls = []\<rparr>"

text \<open>
  Two single-page uploads whose extracted text has 2000 characters: in \<open>gap_pages\<close>
  the page is 1471 spaces followed by 520 letters \<^verbatim>\<open>x\<close>, in \<open>full_pages\<close> it is 1991
  letters \<^verbatim>\<open>x\<close>. \<open>gap_chunks\<close> are the three chunks of the first, the second of them
  blank; \<open>gap_args\<close> is what \<open>index_pdf\<close> passes to the store for it.
\<close>

definition gap_pages :: "str list" where
  "gap_pages = [replicate 1471 32 @ replicate 520 120]"

definition full_pages :: "str list" where
  "full_pages = [replicate 1991 120]"

definition gap_chunks :: "str list" where
  "gap_chunks =
     [ascii ''[Page 1]'' @ [10] @ replicate 791 32,
      replicate 800 32,
      replicate 120 32 @ replicate 520 120]"

definition gap_args :: "nat add_args" where
  "gap_args =
     \<lparr>add_documents = [gap_chunks ! 0, gap_chunks ! 2],
      add_metadatas =
        [\<lparr>source = ascii ''inv.pdf'', chunk = 0\<rparr>, \<lparr>source = ascii ''inv.pdf'', chunk = 2\<rparr>],
      add_embeddings = [800, 640],
      add_ids = [ascii ''inv_0'', ascii ''inv_2'']\<rparr>"

definition full_chunks :: "str list" where
  "full_chunks =
     [take 800 (load_pdf_text full_pages), take 800 (drop 680 (load_pdf_text full_pages)),
      drop 1360 (load_pdf_text full_pages)]"

section \<open>Properties of the chunker\<close>

lemma chunk_loop_windows:
  "overlap < chunk_size \<Longrightarrow>
   chunk_loop text chunk_size overlap start chunks =
     Some (chunks @ windows text chunk_size overlap start)"
proof (induction "text" chunk_size overlap start arbitrary: chunks rule: windows.induct)
  case (1 t c ov s)
  show ?case
  proof (cases "s < int (length t)")
    case True
    with "1.prems" have
      "chunk_loop t c ov (s + c - ov) (chunks @ [py_slice t s (s + c)]) =
       Some ((chunks @ [py_slice t s (s + c)]) @ windows t c ov (s + c - ov))"
      by (intro "1.IH") simp_all
    with True "1.prems" show ?thesis
      by (subst chunk_loop.simps, subst windows.simps) (simp add: Let_def)
  next
    case False
    then show ?thesis
      by (subst chunk_loop.simps, subst windows.simps) simp
  qed
qed

lemma ceil_div_step:
  assumes "0 < d" "0 < a"
  shows "ceil_div a d = 1 + (if d < a then ceil_div (a - d) d else 0)"
proof (cases "d < a")
  case True
  have "(- a + d) div d = (- a) div d + 1"
    using assms div_add_self2 [of d "- a"] by simp
  moreover have "- (a - d) = - a + d" by simp
  ultimately have "(- (a - d)) div d = (- a) div d + 1" by metis
  then have "ceil_div (a - d) d = ceil_div a d - 1"
    unfolding ceil_div_def by linarith
  with True show ?thesis by simp
next
  case False
  with assms have "(- a) div d = - 1"
    by (intro int_div_pos_eq [where r = "d - a"]) simp_all
  with False show ?thesis by (simp add: ceil_div_def)
qed

lemma windows_length:
  "overlap < chunk_size \<Longrightarrow>
   int (length (windows text chunk_size overlap start)) =
     (if start < int (length text)
      then ceil_div (int (length text) - start) (chunk_size - overlap) else 0)"
proof (induction "text" chunk_size overlap start rule: windows.induct)
  case (1 t c ov s)
  show ?case
  proof (cases "s < int (length t)")
    case True
    with "1.prems" have IH:
      "int (length (windows t c ov (s + c - ov))) =
        (if s + c - ov < int (length t)
         then ceil_div (int (length t) - (s + c - ov)) (c - ov) else 0)"
      by (intro "1.IH") simp_all
    have "ceil_div (int (length t) - s) (c - ov) =
        1 + (if c - ov < int (length t) - s
             then ceil_div (int (length t) - s - (c - ov)) (c - ov) else 0)"
      using True "1.prems" by (intro ceil_div_step) simp_all
    with True "1.prems" IH show ?thesis
      by (subst windows.simps) (simp add: algebra_simps)
  next
    case False
    then show ?thesis by (subst windows.simps) simp
  qed
qed

lemma py_slice_window:
  "0 \<le> start \<Longrightarrow> 0 \<le> chunk_size \<Longrightarrow>
   py_slice xs start (start + chunk_size) = take (nat chunk_size) (drop (nat start) xs)"
  by (auto simp: py_slice_def slice_index_def Let_def min_def nat_add_distrib take_all_iff)

lemma py_slice_prefix:
  "0 \<le> n \<Longrightarrow> py_slice xs 0 n = take (nat n) xs"
  using py_slice_window [of 0 n xs] by simp

lemma sublist_py_slice: "sublist (py_slice xs lo hi) xs"
  unfolding py_slice_def Let_def
  by (meson sublist_order.order_trans sublist_take sublist_drop)

lemma windows_sublist: "c \<in> set (windows text chunk_size overlap start) \<Longrightarrow> sublist c text"
proof (induction "text" chunk_size overlap start rule: windows.induct)
  case (1 t cs ov s)
  from "1.prems" show ?case
    by (subst (asm) windows.simps) (auto split: if_splits simp: sublist_py_slice dest: "1.IH"[rotated -1])
qed


lemma windows_nonempty:
  "0 < chunk_size \<Longrightarrow> 0 \<le> start \<Longrightarrow> [] \<notin> set (windows text chunk_size overlap start)"
proof (induction "text" chunk_size overlap start rule: windows.induct)
  case (1 t c ov s)
  show ?case
  proof (cases "s < int (length t) \<and> ov < c")
    case True
    with "1.prems" have "[] \<notin> set (windows t c ov (s + c - ov))"
      by (intro "1.IH") simp_all
    moreover from True "1.prems" have "py_slice t s (s + c) \<noteq> []"
      by (simp add: py_slice_window) arith
    ultimately show ?thesis using True
      by (subst windows.simps) auto
  next
    case False
    then show ?thesis by (subst windows.simps) auto
  qed
qed

lemma windows_prefixes:
  "0 \<le> overlap \<Longrightarrow> overlap < chunk_size \<Longrightarrow> 0 \<le> start \<Longrightarrow>
   concat (map (\<lambda>c. py_slice c 0 (chunk_size - overlap))
     (windows text chunk_size overlap start)) = drop (nat start) text"
proof (induction "text" chunk_size overlap start rule: windows.induct)
  case (1 t c ov s)
  show ?case
  proof (cases "s < int (length t)")
    case True
    with "1.prems" have IH:
      "concat (map (\<lambda>x. py_slice x 0 (c - ov)) (windows t c ov (s + c - ov)))
         = drop (nat (s + c - ov)) t"
      by (intro "1.IH") simp_all
    from "1.prems" have
      "py_slice (py_slice t s (s + c)) 0 (c - ov) = take (nat (c - ov)) (drop (nat s) t)"
      by (simp add: py_slice_window py_slice_prefix min_def)
    moreover from "1.prems" have "nat (s + c - ov) = nat (c - ov) + nat s"
      by simp
    ultimately show ?thesis using True "1.prems" IH
      by (subst windows.simps) (simp add: drop_drop [symmetric] del: drop_drop)
  next
    case False
    then show ?thesis by (subst windows.simps) simp
  qed
qed

lemma windows_single:
  assumes "text \<noteq> []" "int (length text) \<le> chunk_size"
    "int (length text) \<le> chunk_size - overlap"
  shows "windows text chunk_size overlap 0 = [text]"
proof -
  from assms have ov: "overlap < chunk_size" by (cases "text") auto
  from assms have "py_slice text 0 (0 + chunk_size) = text"
    by (subst py_slice_window) simp_all
  moreover from assms have "windows text chunk_size overlap (0 + chunk_size - overlap) = []"
    by (subst windows.simps) simp
  ultimately show ?thesis using assms ov
    by (subst windows.simps) simp
qed

lemma windows_2000:
  assumes "length text = 2000"
  shows "windows text 800 120 0 =
    [take 800 text, take 800 (drop 680 text), drop 1360 text]"
proof -
  have s: "\<And>a. 0 \<le> a \<Longrightarrow> py_slice text a (a + 800) = take 800 (drop (nat a) text)"
    by (simp add: py_slice_window)
  have "windows text 800 120 2040 = []"
    using assms by (subst windows.simps) simp
  then have "windows text 800 120 1360 = [take 800 (drop 1360 text)]"
    using assms s [of 1360] by (subst windows.simps) simp
  then have "windows text 800 120 680 = [take 800 (drop 680 text), take 800 (drop 1360 text)]"
    using assms s [of 680] by (subst windows.simps) simp
  then have "windows text 800 120 0 =
      [take 800 text, take 800 (drop 680 text), take 800 (drop 1360 text)]"
    using assms s [of 0] by (subst windows.simps) simp
  with assms show ?thesis by simp
qed

lemma chunk_loop_diverges:
  assumes "chunk_loop text chunk_size overlap start chunks = Some ys"
  shows "\<not> (chunk_size \<le> overlap \<and> start < int (length text))"
proof (rule chunk_loop.raw_induct
    [where P = "\<lambda>t c ov s chunks ys. \<not> (c \<le> ov \<and> s < int (length t))", OF _ assms])
  fix f :: "str \<Rightarrow> int \<Rightarrow> int \<Rightarrow> int \<Rightarrow> str list \<Rightarrow> str list option"
    and t c ov s chunks ys
  assume IH: "\<And>t c ov s chunks ys. f t c ov s chunks = Some ys \<Longrightarrow>
      \<not> (c \<le> ov \<and> s < int (length t))"
    and step: "(if s < int (length t) then
        (let stop = s + c in f t c ov (stop - ov) (chunks @ [py_slice t s stop]))
      else Some chunks) = Some ys"
  show "\<not> (c \<le> ov \<and> s < int (length t))"
  proof
    assume a: "c \<le> ov \<and> s < int (length t)"
    with step have "f t c ov (s + c - ov) (chunks @ [py_slice t s (s + c)]) = Some ys"
      by (simp add: Let_def)
    from IH [OF this] a show False by simp
  qed
qed


lemma chunk_text_windows:
  "overlap < chunk_size \<Longrightarrow>
   chunk_text text chunk_size overlap = Some (windows text chunk_size overlap 0)"
  by (simp add: chunk_text_def chunk_loop_windows)

lemma windows_700:
  "windows (replicate 700 c) 800 120 0 = [replicate 700 c, replicate 20 c]"
proof -
  have "windows (replicate 700 c) 800 120 1360 = []"
    by (subst windows.simps) simp
  then have "windows (replicate 700 c) 800 120 680 = [replicate 20 c]"
    using py_slice_window [of 680 800 "replicate 700 c"]
    by (subst windows.simps) simp
  then show ?thesis
    using py_slice_window [of 0 800 "replicate 700 c"]
    by (subst windows.simps) simp
qed

text \<open>
  Without the precondition the loop runs forever on every non-empty text: \<open>start\<close>
  never grows, so the model's \<open>None\<close> is a run of the code.
\<close>

lemma chunk_text_diverges:
  "chunk_size \<le> overlap \<Longrightarrow> text \<noteq> [] \<Longrightarrow> chunk_text text chunk_size overlap = None"
  using chunk_loop_diverges [of "text" chunk_size overlap 0 "[]"]
  by (cases "chunk_text text chunk_size overlap") (auto simp: chunk_text_def)

text \<open>
  A window is the empty string only for a chunk size below one; there every window
  that starts at or beyond \<open>len(text) + chunk_size\<close> is empty, whatever the length.
\<close>

lemma chunk_text_zero_size:
  "chunk_text (ascii ''ab'') 0 (- 1) = Some [[], []]"
  by (simp add: chunk_text_def chunk_loop.simps py_slice_def slice_index_def ascii_def Let_def)

subsection \<open>Number of chunks\<close>

text \<open>
  Claim C3, as the code has it. For every text of length \<open>L\<close> and all integers
  \<open>overlap < chunk_size\<close>, \<open>chunk_text\<close> returns, and the number of chunks is
  \<open>ceil(L / (chunk_size - overlap))\<close>: one window per stride begun, the overlap playing
  no part in the count.
\<close>

theorem chunk_text_count:
  "overlap < chunk_size \<Longrightarrow>
   \<exists>ys. chunk_text text chunk_size overlap = Some ys \<and>
        int (length ys) = ceil_div (int (length text)) (chunk_size - overlap)"
  by (simp add: chunk_text_windows windows_length ceil_div_def)

theorem chunk_text_count_witness:
  "(2::int) < 3 \<and>
   (\<exists>ys. chunk_text (ascii ''abc'') 3 2 = Some ys \<and> int (length ys) = 3)"
  using chunk_text_count [of 2 3 "ascii ''abc''"]
  by (simp add: ceil_div_def ascii_def)

text \<open>
  The specification's formula \<open>ceil(max(L - O, 0) / (C - O))\<close> is not that count:
  \<^verbatim>\<open>chunk_text("abc", 3, 2)\<close> has three chunks where the formula gives one, and with
  the default parameters a one-character text has one chunk where the formula gives
  none.
\<close>

theorem chunk_text_count_counterexample:
  "chunk_text (ascii ''abc'') 3 2 = Some [ascii ''abc'', ascii ''bc'', ascii ''c''] \<and>
   spec_chunk_count (int (length (ascii ''abc''))) 3 2 = 1 \<and>
   chunk_text (ascii ''a'') 800 120 = Some [ascii ''a''] \<and>
   spec_chunk_count (int (length (ascii ''a''))) 800 120 = 0"
  by (simp add: chunk_text_def chunk_loop.simps py_slice_def slice_index_def ascii_def
      Let_def spec_chunk_count_def ceil_div_def)

subsection \<open>Short texts\<close>

text \<open>
  Claim C4, as the code has it. A non-empty text that is no longer than \<open>chunk_size\<close>
  and no longer than the stride \<open>chunk_size - overlap\<close> yields exactly one chunk, the
  whole text.
\<close>

theorem chunk_text_short:
  "text \<noteq> [] \<Longrightarrow> int (length text) \<le> chunk_size \<Longrightarrow>
   int (length text) \<le> chunk_size - overlap \<Longrightarrow>
   chunk_text text chunk_size overlap = Some [text]"
  by (cases "text") (simp_all add: chunk_text_windows windows_single)

theorem chunk_text_short_witness:
  "ascii ''ab'' \<noteq> [] \<and> int (length (ascii ''ab'')) \<le> 3 \<and>
   int (length (ascii ''ab'')) \<le> 3 - 1 \<and>
   chunk_text (ascii ''ab'') 3 1 = Some [ascii ''ab'']"
  using chunk_text_short [of "ascii ''ab''" 3 1]
  by (simp add: ascii_def)

text \<open>
  A length below \<open>chunk_size\<close> is not enough. The empty text yields no chunk at all;
  a text of 700 characters, chunked with the defaults, yields two chunks, the second
  one its last 20 characters; \<^verbatim>\<open>chunk_text("ab", 3, 2)\<close> yields \<^verbatim>\<open>["ab", "b"]\<close>.
\<close>

theorem chunk_text_short_counterexample:
  "chunk_text [] 800 120 = Some [] \<and>
   length (replicate 700 (120::nat)) < 800 \<and>
   chunk_text (replicate 700 120) 800 120 = Some [replicate 700 120, replicate 20 120] \<and>
   length (ascii ''ab'') < 3 \<and>
   chunk_text (ascii ''ab'') 3 2 = Some [ascii ''ab'', ascii ''b'']"
proof -
  have "chunk_text [] 800 120 = Some []"
    by (simp add: chunk_text_def chunk_loop.simps)
  moreover have "chunk_text (replicate 700 120) 800 120
      = Some [replicate 700 120, replicate 20 120]"
    by (simp add: chunk_text_windows windows_700)
  moreover have "chunk_text (ascii ''ab'') 3 2 = Some [ascii ''ab'', ascii ''b'']"
    by (simp add: chunk_text_def chunk_loop.simps py_slice_def slice_index_def ascii_def Let_def)
  ultimately show ?thesis by (simp add: ascii_def)
qed

subsection \<open>Termination\<close>

text \<open>
  Claim C7. For every text and all integers \<open>overlap < chunk_size\<close>, \<open>chunk_text\<close>
  returns: its result is a list, each element a contiguous part of the text.
\<close>

theorem chunk_text_terminates:
  "overlap < chunk_size \<Longrightarrow>
   \<exists>ys. chunk_text text chunk_size overlap = Some ys \<and> (\<forall>c\<in>set ys. sublist c text)"
  by (auto simp: chunk_text_windows windows_sublist)

theorem chunk_text_terminates_witness:
  "(120::int) < 800 \<and>
   (\<exists>ys. chunk_text (ascii ''invoice'') 800 120 = Some ys \<and>
      (\<forall>c\<in>set ys. sublist c (ascii ''invoice'')))"
  using chunk_text_terminates [of 120 800 "ascii ''invoice''"] by simp

subsection \<open>Reconstruction from prefixes\<close>

text \<open>
  Claim C8. The overlap is the number of characters two consecutive windows share, so
  it is not negative. For every text and all parameters with
  \<open>0 \<le> overlap < chunk_size\<close>, the prefixes \<^verbatim>\<open>chunk[:chunk_size - overlap]\<close> of the
  consecutive chunks, concatenated, are the text.
\<close>

theorem chunk_text_prefixes:
  "0 \<le> overlap \<Longrightarrow> overlap < chunk_size \<Longrightarrow>
   \<exists>ys. chunk_text text chunk_size overlap = Some ys \<and>
        concat (map (\<lambda>c. py_slice c 0 (chunk_size - overlap)) ys) = text"
  using windows_prefixes [of overlap chunk_size 0 "text"]
  by (simp add: chunk_text_windows)

theorem chunk_text_prefixes_witness:
  "(0::int) \<le> 1 \<and> (1::int) < 3 \<and>
   (\<exists>ys. chunk_text (ascii ''abcde'') 3 1 = Some ys \<and>
        concat (map (\<lambda>c. py_slice c 0 (3 - 1)) ys) = ascii ''abcde'')"
  using chunk_text_prefixes [of 1 3 "ascii ''abcde''"] by simp

text \<open>
  Why the overlap must be a count: a negative integer in its place makes the stride
  longer than the window, and the characters between two windows are in no chunk.
\<close>

lemma chunk_text_negative_overlap:
  "(- 1 :: int) < 1 \<and>
   chunk_text (ascii ''abc'') 1 (- 1) = Some [ascii ''a'', ascii ''c''] \<and>
   concat (map (\<lambda>c. py_slice c 0 (1 - (- 1))) [ascii ''a'', ascii ''c'']) \<noteq> ascii ''abc''"
  by (simp add: chunk_text_def chunk_loop.simps py_slice_def slice_index_def ascii_def Let_def)

subsection \<open>Empty windows\<close>

text \<open>
  Claim C9, as the code has it. For every text and all integers with
  \<open>1 \<le> chunk_size\<close> and \<open>overlap < chunk_size\<close>, no window that \<open>chunk_text\<close> produces
  is the empty string: the loop only opens a window at an offset inside the text,
  also when the length is an exact multiple of the stride.
\<close>

theorem chunk_text_no_empty_window:
  "0 < chunk_size \<Longrightarrow> overlap < chunk_size \<Longrightarrow>
   \<exists>ys. chunk_text text chunk_size overlap = Some ys \<and> [] \<notin> set ys"
  by (simp add: chunk_text_windows windows_nonempty)

theorem chunk_text_no_empty_window_witness:
  "(0::int) < 2 \<and> (1::int) < 2 \<and>
   (\<exists>ys. chunk_text (ascii ''abcd'') 2 1 = Some ys \<and> [] \<notin> set ys)"
  using chunk_text_no_empty_window [of 2 1 "ascii ''abcd''"] by simp

text \<open>
  There is no text, of a length that is a multiple of the stride, for which a positive
  chunk size gives an empty window.
\<close>

theorem chunk_text_empty_tail_counterexample:
  "\<not> (\<exists>text chunk_size overlap ys.
        0 < chunk_size \<and> overlap < chunk_size \<and>
        int (length text) mod (chunk_size - overlap) = 0 \<and>
        chunk_text text chunk_size overlap = Some ys \<and> [] \<in> set ys)"
  by (auto simp: chunk_text_windows windows_nonempty)

section \<open>Properties of the pipelines\<close>

subsection \<open>Blank chunks and the loop of \<open>index_pdf\<close>\<close>

lemma py_strip_Nil_iff: "py_strip s = [] \<longleftrightarrow> (\<forall>c\<in>set s. isspace c)"
proof -
  have "py_strip s = [] \<longleftrightarrow> (\<forall>c\<in>set (dropWhile isspace s). isspace c)"
    by (auto simp: py_strip_def dropWhile_eq_Nil_conv dest: set_dropWhileD)
  also have "\<dots> \<longleftrightarrow> dropWhile isspace s = []"
  proof (cases "dropWhile isspace s")
    case Nil
    show ?thesis unfolding Nil by simp
  next
    case (Cons x xs)
    then have "\<not> isspace x" using hd_dropWhile [of isspace s] by auto
    with Cons show ?thesis by auto
  qed
  also have "\<dots> \<longleftrightarrow> (\<forall>c\<in>set s. isspace c)"
    by (simp add: dropWhile_eq_Nil_conv)
  finally show ?thesis .
qed

lemma index_loop_zip:
  "index_loop filename stem i cs (a, m, d) =
     (let K = filter (\<lambda>(j, c). py_strip c \<noteq> []) (zip [i..<i + length cs] cs)
      in (a @ map snd K,
          m @ map (\<lambda>(j, c). \<lparr>source = filename, chunk = j\<rparr>) K,
          d @ map (\<lambda>(j, c). chunk_id stem j) K))"
proof (induction cs arbitrary: i a m d)
  case Nil
  then show ?case by simp
next
  case (Cons c cs)
  have "zip [i..<i + length (c # cs)] (c # cs) = (i, c) # zip [Suc i..<Suc i + length cs] cs"
    by (simp add: upt_conv_Cons del: upt_Suc)
  then show ?case
    by (simp add: Cons.IH Let_def)
qed

lemma zip_upt_nth: "zip [0..<length xs] xs = map (\<lambda>i. (i, xs ! i)) [0..<length xs]"
  by (rule nth_equalityI) simp_all

lemma filter_enumerate:
  "filter (\<lambda>(j, c). py_strip c \<noteq> []) (zip [0..<length chunks] chunks) =
   map (\<lambda>i. (i, chunks ! i)) (kept_indices chunks)"
  by (simp add: zip_upt_nth filter_map kept_indices_def comp_def)

lemma index_loop_kept:
  "index_loop filename stem 0 chunks ([], [], []) =
     (map (\<lambda>i. chunks ! i) (kept_indices chunks),
      map (\<lambda>i. \<lparr>source = filename, chunk = i\<rparr>) (kept_indices chunks),
      map (\<lambda>i. chunk_id stem i) (kept_indices chunks))"
  by (simp add: index_loop_zip filter_enumerate Let_def comp_def)

lemma kept_indices_Nil: "kept_indices [] = []"
  by (simp add: kept_indices_def)

lemma kept_indices_empty_iff:
  "kept_indices chunks = [] \<longleftrightarrow> (\<forall>c\<in>set chunks. py_strip c = [])"
  by (auto simp: kept_indices_def filter_empty_conv all_set_conv_all_nth)

lemma length_kept_indices:
  "length (kept_indices chunks) = length (filter (\<lambda>c. py_strip c \<noteq> []) chunks)"
proof -
  let ?P = "\<lambda>c. py_strip c \<noteq> []"
  have "filter ?P chunks = filter ?P (map ((!) chunks) [0..<length chunks])"
    by (simp add: map_nth)
  also have "\<dots> = map ((!) chunks) (filter (?P \<circ> (!) chunks) [0..<length chunks])"
    by (rule filter_map)
  also have "\<dots> = map ((!) chunks) (kept_indices chunks)"
    by (simp add: kept_indices_def comp_def)
  finally have "length (filter ?P chunks) = length (map ((!) chunks) (kept_indices chunks))"
    by (rule arg_cong)
  then show ?thesis by simp
qed

lemma kept_indices_3:
  "kept_indices [a, b, c] =
     (if py_strip a \<noteq> [] then [0] else []) @ (if py_strip b \<noteq> [] then [1] else [])
       @ (if py_strip c \<noteq> [] then [2] else [])"
  by (simp add: kept_indices_def upt_rec)

lemma chunk_id_digits:
  "chunk_id stem 0 = stem @ ascii ''_0''"
  "chunk_id stem 1 = stem @ ascii ''_1''"
  "chunk_id stem (Suc 0) = stem @ ascii ''_1''"
  "chunk_id stem 2 = stem @ ascii ''_2''"
  by (simp_all add: chunk_id_def str_of_nat.simps ascii_def)

lemma chunk_text_default:
  "chunk_text text 800 120 = Some (windows text 800 120 0)"
  by (simp add: chunk_text_windows)

lemma chunk_text_2000:
  "length text = 2000 \<Longrightarrow>
   chunk_text text 800 120 = Some [take 800 text, take 800 (drop 680 text), drop 1360 text]"
  by (simp add: chunk_text_default windows_2000)

subsection \<open>The runs of \<open>index_pdf\<close>\<close>

lemma index_pdf_read_error:
  "read_pages sv pdf = Inl e \<Longrightarrow> index_pdf sv pdf filename w = (Raises e, w)"
  by (simp add: index_pdf_def)

lemma index_pdf_nothing_kept:
  assumes "read_pages sv pdf = Inr pages"
    and "chunk_text (load_pdf_text pages) 800 120 = Some chunks"
    and "kept_indices chunks = []"
  shows "index_pdf sv pdf filename w = (Returns 0, w)"
  using assms by (simp add: index_pdf_def index_loop_kept)

lemma index_pdf_embed_error:
  assumes "read_pages sv pdf = Inr pages"
    and "chunk_text (load_pdf_text pages) 800 120 = Some chunks"
    and "kept_indices chunks \<noteq> []"
    and "embeddings_create sv (Batch (map (\<lambda>i. chunks ! i) (kept_indices chunks))) = Inl e"
  shows "index_pdf sv pdf filename w =
    (Raises e,
     w\<lparr>embed_calls := embed_calls w @ [Batch (map (\<lambda>i. chunks ! i) (kept_indices chunks))]\<rparr>)"
proof -
  from assms(3) have "chunks \<noteq> []"
    by (auto simp: kept_indices_def)
  with assms show ?thesis
    by (simp add: index_pdf_def index_loop_kept Let_def)
qed

lemma index_pdf_embedded:
  assumes "read_pages sv pdf = Inr pages"
    and "chunk_text (load_pdf_text pages) 800 120 = Some chunks"
    and "kept_indices chunks \<noteq> []"
    and "embeddings_create sv (Batch (map (\<lambda>i. chunks ! i) (kept_indices chunks))) = Inr vectors"
  shows "index_pdf sv pdf filename w =
    (case coll_add sv (index_args sv filename chunks vectors) (collection w) of
       Inl e \<Rightarrow>
         (Raises e,
          w\<lparr>embed_calls :=
               embed_calls w @ [Batch (map (\<lambda>i. chunks ! i) (kept_indices chunks))],
             add_calls := add_calls w @ [index_args sv filename chunks vectors]\<rparr>)
     | Inr s \<Rightarrow>
         (Returns (length (kept_indices chunks)),
          w\<lparr>embed_calls :=
               embed_calls w @ [Batch (map (\<lambda>i. chunks ! i) (kept_indices chunks))],
             add_calls := add_calls w @ [index_args sv filename chunks vectors],
             collection := s\<rparr>))"
proof -
  from assms(3) have "chunks \<noteq> []"
    by (auto simp: kept_indices_def)
  with assms show ?thesis
    by (simp add: index_pdf_def index_loop_kept Let_def index_args_def
        split: sum.splits)
qed

lemma index_pdf_add_call:
  assumes run: "index_pdf sv pdf filename w = (r, w')"
    and reached: "add_calls w' \<noteq> add_calls w"
  shows "\<exists>pages chunks vectors.
     read_pages sv pdf = Inr pages \<and>
     chunk_text (load_pdf_text pages) 800 120 = Some chunks \<and>
     kept_indices chunks \<noteq> [] \<and>
     embeddings_create sv (Batch (map (\<lambda>i. chunks ! i) (kept_indices chunks))) = Inr vectors \<and>
     add_calls w' = add_calls w @ [index_args sv filename chunks vectors] \<and>
     (case coll_add sv (index_args sv filename chunks vectors) (collection w) of
        Inl e \<Rightarrow> r = Raises e
      | Inr s \<Rightarrow> r = Returns (length (kept_indices chunks)))"
proof (cases "read_pages sv pdf")
  case (Inl e)
  with run reached show ?thesis by (simp add: index_pdf_read_error)
next
  case (Inr pages)
  define chunks where "chunks = windows (load_pdf_text pages) 800 120 0"
  then have ct: "chunk_text (load_pdf_text pages) 800 120 = Some chunks"
    by (simp add: chunk_text_default)
  show ?thesis
  proof (cases "kept_indices chunks = []")
    case True
    with run reached Inr ct show ?thesis
      by (simp add: index_pdf_nothing_kept)
  next
    case False
    show ?thesis
    proof (cases "embeddings_create sv (Batch (map (\<lambda>i. chunks ! i) (kept_indices chunks)))")
      case (Inl e)
      with run reached Inr ct False show ?thesis
        by (auto simp: index_pdf_embed_error)
    next
      case emb: (Inr vectors)
      from run index_pdf_embedded [OF Inr ct False emb, of filename w]
      have "add_calls w' = add_calls w @ [index_args sv filename chunks vectors] \<and>
        (case coll_add sv (index_args sv filename chunks vectors) (collection w) of
           Inl e \<Rightarrow> r = Raises e
         | Inr s \<Rightarrow> r = Returns (length (kept_indices chunks)))"
        by (auto split: sum.splits)
      with Inr ct False emb show ?thesis by blast
    qed
  qed
qed

subsection \<open>The extracted text starts with a page marker\<close>

text \<open>
  A non-empty extracted text begins with \<^verbatim>\<open>[\<close> of \<^verbatim>\<open>[Page N]\<close>, so its first chunk is
  never blank: within \<open>index_pdf\<close> all chunks are blank only when there is no chunk.
\<close>

lemma load_loop_blocks:
  "\<forall>b\<in>set acc. b \<noteq> [] \<and> hd b = 91 \<Longrightarrow>
   \<forall>b\<in>set (load_loop i ts acc). b \<noteq> [] \<and> hd b = 91"
proof (induction ts arbitrary: i acc)
  case Nil
  then show ?case by simp
next
  case (Cons t ts)
  have pb: "page_block i t \<noteq> [] \<and> hd (page_block i t) = 91"
    by (simp add: page_block_def ascii_def)
  show ?case
  proof (cases "t = []")
    case True
    then have "load_loop i (t # ts) acc = load_loop (i + 1) ts acc"
      by simp
    moreover from Cons.prems
    have "\<forall>b\<in>set (load_loop (i + 1) ts acc). b \<noteq> [] \<and> hd b = 91"
      by (rule Cons.IH)
    ultimately show ?thesis by (simp only:)
  next
    case False
    then have "load_loop i (t # ts) acc = load_loop (i + 1) ts (acc @ [page_block i t])"
      by simp
    moreover from Cons.prems pb
    have "\<forall>b\<in>set (acc @ [page_block i t]). b \<noteq> [] \<and> hd b = 91"
      by simp
    then have "\<forall>b\<in>set (load_loop (i + 1) ts (acc @ [page_block i t])). b \<noteq> [] \<and> hd b = 91"
      by (rule Cons.IH)
    ultimately show ?thesis by (simp only:)
  qed
qed

lemma py_join_hd:
  "xs \<noteq> [] \<Longrightarrow> hd xs \<noteq> [] \<Longrightarrow> py_join sep xs \<noteq> [] \<and> hd (py_join sep xs) = hd (hd xs)"
  by (cases "(sep, xs)" rule: py_join.cases) auto

lemma load_pdf_text_hd:
  assumes "load_pdf_text pages \<noteq> []"
  shows "hd (load_pdf_text pages) = 91"
proof -
  let ?blocks = "load_loop 0 pages []"
  from assms have ne: "?blocks \<noteq> []"
    by (auto simp: load_pdf_text_def)
  have "\<forall>b\<in>set ?blocks. b \<noteq> [] \<and> hd b = 91"
    by (rule load_loop_blocks) simp
  with ne have "hd ?blocks \<noteq> []" "hd (hd ?blocks) = 91"
    by (simp_all add: hd_in_set)
  with ne py_join_hd [of ?blocks "[10]"] show ?thesis
    by (simp add: load_pdf_text_def)
qed

lemma first_chunk_not_blank:
  assumes "load_pdf_text pages \<noteq> []"
    and "chunk_text (load_pdf_text pages) 800 120 = Some chunks"
  shows "chunks \<noteq> [] \<and> py_strip (hd chunks) \<noteq> []"
proof -
  let ?t = "load_pdf_text pages"
  from assms(1) have lt: "0 < int (length ?t)" by simp
  from assms(2) have "chunks = windows ?t 800 120 0"
    by (simp add: chunk_text_default)
  moreover from lt have "windows ?t 800 120 0 =
      py_slice ?t 0 (0 + 800) # windows ?t 800 120 (0 + 800 - 120)"
    by (subst windows.simps) simp
  ultimately have c: "chunks \<noteq> []" "hd chunks = py_slice ?t 0 (0 + 800)"
    by simp_all
  from c(2) have "hd chunks = take 800 ?t"
    using py_slice_window [of 0 800 ?t] by simp
  with assms(1) load_pdf_text_hd [OF assms(1)] have "91 \<in> set (hd chunks)"
    by (cases ?t) auto
  moreover have "\<not> isspace 91" by (simp add: isspace_def)
  ultimately have "py_strip (hd chunks) \<noteq> []"
    by (auto simp: py_strip_Nil_iff)
  with c show ?thesis by simp
qed

subsection \<open>The concrete runs\<close>

lemma stub_fields:
  "read_pages stub_services = Inr"
  "path_stem stub_services (ascii ''inv.pdf'') = ascii ''inv''"
  "embeddings_create stub_services (Batch xs) = Inr (map length xs)"
  "coll_count stub_services = length"
  "coll_add stub_services args s = Inr (s @ zip (add_ids args) (add_documents args))"
  by (simp_all add: stub_services_def ascii_def)

lemma page_block_0: "page_block 0 t = ascii ''[Page 1]'' @ [10] @ t"
  by (simp add: page_block_def str_of_nat.simps ascii_def)

lemma load_gap_pages:
  "load_pdf_text gap_pages = ascii ''[Page 1]'' @ [10] @ replicate 1471 32 @ replicate 520 120"
  by (simp add: load_pdf_text_def gap_pages_def page_block_0)

lemma load_full_pages:
  "load_pdf_text full_pages = ascii ''[Page 1]'' @ [10] @ replicate 1991 120"
  by (simp add: load_pdf_text_def full_pages_def page_block_0)

lemma chunk_text_gap:
  "chunk_text (load_pdf_text gap_pages) 800 120 = Some gap_chunks"
  by (subst chunk_text_2000) (simp_all add: load_gap_pages ascii_def gap_chunks_def)

lemma kept_gap: "kept_indices gap_chunks = [0, 2]"
  by (simp add: gap_chunks_def kept_indices_3 py_strip_Nil_iff isspace_def ascii_def)

lemma gap_run:
  "index_pdf stub_services gap_pages (ascii ''inv.pdf'') empty_world =
     (Returns 2,
      \<lparr>collection =
         [(ascii ''inv_0'', gap_chunks ! 0), (ascii ''inv_2'', gap_chunks ! 2)],
       embed_calls = [Batch [gap_chunks ! 0, gap_chunks ! 2]],
       add_calls = [gap_args]\<rparr>)"
proof -
  have r: "read_pages stub_services gap_pages = Inr gap_pages"
    by (simp add: stub_fields)
  have k: "kept_indices gap_chunks \<noteq> []"
    by (simp add: kept_gap)
  have e: "embeddings_create stub_services
      (Batch (map (\<lambda>i. gap_chunks ! i) (kept_indices gap_chunks))) = Inr [800, 640]"
    by (simp add: kept_gap stub_fields) (simp add: gap_chunks_def ascii_def)
  have a: "index_args stub_services (ascii ''inv.pdf'') gap_chunks [800, 640] = gap_args"
    by (simp add: index_args_def kept_gap stub_fields chunk_id_digits gap_args_def)
      (simp add: ascii_def)
  show ?thesis
    by (subst index_pdf_embedded [OF r chunk_text_gap k e])
      (simp add: a kept_gap stub_fields empty_world_def, simp add: gap_args_def)
qed

subsection \<open>Retrieval from an empty store\<close>

text \<open>
  When the store is not empty the embedding service is called, and the call is logged:
  an unchanged log is a call that was not made.
\<close>

lemma retrieve_context_logs_call:
  "coll_count sv (collection w) \<noteq> 0 \<Longrightarrow>
   embed_calls (snd (retrieve_context sv question w)) = embed_calls w @ [Single question]"
  by (simp add: retrieve_context_def Let_def split: sum.splits list.splits)

text \<open>
  Claim C1. For every question, if the collection's \<^verbatim>\<open>count()\<close> is 0 then
  \<open>retrieve_context\<close> returns the sentence "No documents have been indexed yet. Please
  upload some invoices first." It raises nothing, and the state it leaves is the state
  it was given: no call to the embedding service is logged.
\<close>

theorem retrieve_context_empty_store:
  "coll_count sv (collection w) = 0 \<Longrightarrow>
   retrieve_context sv question w = (Returns no_documents_indexed, w) \<and>
   embed_calls (snd (retrieve_context sv question w)) = embed_calls w"
  by (simp add: retrieve_context_def)

theorem retrieve_context_empty_store_witness:
  "coll_count stub_services (collection empty_world) = 0 \<and>
   retrieve_context stub_services (ascii ''anything'') empty_world =
     (Returns no_documents_indexed, empty_world)"
  using retrieve_context_empty_store [of stub_services empty_world "ascii ''anything''"]
  by (simp add: stub_fields empty_world_def)

subsection \<open>A document with no text\<close>

text \<open>
  Claim C2. For every upload that the reader reads, if the extracted text is empty, or
  every chunk of it is blank after \<^verbatim>\<open>strip()\<close>, then \<open>index_pdf\<close> returns 0 and the state
  it leaves is the state it was given: no embedding call and no \<^verbatim>\<open>add\<close> call is logged,
  and the collection, hence its \<^verbatim>\<open>count()\<close>, is the same.
\<close>

theorem index_pdf_no_text:
  assumes "read_pages sv pdf = Inr pages"
    and "load_pdf_text pages = [] \<or>
      (\<exists>chunks. chunk_text (load_pdf_text pages) 800 120 = Some chunks \<and>
         (\<forall>c\<in>set chunks. py_strip c = []))"
  shows "index_pdf sv pdf filename w = (Returns 0, w) \<and>
     embed_calls (snd (index_pdf sv pdf filename w)) = embed_calls w \<and>
     add_calls (snd (index_pdf sv pdf filename w)) = add_calls w \<and>
     coll_count sv (collection (snd (index_pdf sv pdf filename w))) =
       coll_count sv (collection w)"
proof -
  obtain chunks where c: "chunk_text (load_pdf_text pages) 800 120 = Some chunks"
    by (simp add: chunk_text_default)
  from assms(2) have "\<forall>c\<in>set chunks. py_strip c = []"
  proof
    assume "load_pdf_text pages = []"
    with c have "chunks = []" by (simp add: chunk_text_def chunk_loop.simps)
    then show ?thesis by simp
  next
    assume "\<exists>chunks. chunk_text (load_pdf_text pages) 800 120 = Some chunks \<and>
         (\<forall>c\<in>set chunks. py_strip c = [])"
    with c show ?thesis by auto
  qed
  then have "kept_indices chunks = []" by (simp add: kept_indices_empty_iff)
  with assms(1) c have "index_pdf sv pdf filename w = (Returns 0, w)"
    by (rule index_pdf_nothing_kept)
  then show ?thesis by simp
qed

theorem index_pdf_no_text_witness:
  "read_pages stub_services [[], []] = Inr [[], []] \<and>
   load_pdf_text [[], []] = [] \<and>
   index_pdf stub_services [[], []] (ascii ''scan.pdf'') empty_world = (Returns 0, empty_world)"
proof -
  have r: "read_pages stub_services [[], []] = Inr [[], []]"
    by (simp add: stub_fields)
  have t: "load_pdf_text [[], []] = []"
    by (simp add: load_pdf_text_def)
  from index_pdf_no_text [OF r disjI1 [OF t]] r t show ?thesis by simp
qed

subsection \<open>Chunk ids and metadata\<close>

text \<open>
  Claim C6. In every call of \<open>index_pdf\<close> that reaches \<^verbatim>\<open>collection.add\<close>, the documents
  passed are the non-blank chunks in order, and the chunk at index \<open>i\<close> of the sequence
  \<open>chunk_text\<close> returned (blank chunks counted) is passed with the id \<^verbatim>\<open>"{stem}_{i}"\<close> and
  the metadata \<^verbatim>\<open>{"source": filename, "chunk": i}\<close>.
\<close>

theorem index_pdf_ids:
  assumes "index_pdf sv pdf filename w = (r, w')"
    and "add_calls w' \<noteq> add_calls w"
  shows "\<exists>pages chunks args.
     read_pages sv pdf = Inr pages \<and>
     chunk_text (load_pdf_text pages) 800 120 = Some chunks \<and>
     add_calls w' = add_calls w @ [args] \<and>
     add_documents args = map (\<lambda>i. chunks ! i) (kept_indices chunks) \<and>
     add_ids args =
       map (\<lambda>i. path_stem sv filename @ ascii ''_'' @ str_of_nat i) (kept_indices chunks) \<and>
     add_metadatas args =
       map (\<lambda>i. \<lparr>source = filename, chunk = i\<rparr>) (kept_indices chunks)"
proof -
  from index_pdf_add_call [OF assms] obtain pages chunks vectors where
    "read_pages sv pdf = Inr pages"
    "chunk_text (load_pdf_text pages) 800 120 = Some chunks"
    "add_calls w' = add_calls w @ [index_args sv filename chunks vectors]"
    by blast
  then show ?thesis
    by (intro exI [of _ pages] exI [of _ chunks]
        exI [of _ "index_args sv filename chunks vectors"])
      (simp add: index_args_def chunk_id_def)
qed

theorem index_pdf_ids_witness:
  "\<exists>args. add_calls (snd (index_pdf stub_services gap_pages (ascii ''inv.pdf'') empty_world))
       = [args] \<and>
     add_documents args = [gap_chunks ! 0, gap_chunks ! 2] \<and>
     add_ids args = [ascii ''inv_0'', ascii ''inv_2''] \<and>
     add_metadatas args =
       [\<lparr>source = ascii ''inv.pdf'', chunk = 0\<rparr>, \<lparr>source = ascii ''inv.pdf'', chunk = 2\<rparr>]"
proof -
  let ?run = "index_pdf stub_services gap_pages (ascii ''inv.pdf'') empty_world"
  have run: "?run = (fst ?run, snd ?run)" by simp
  have reached: "add_calls (snd ?run) \<noteq> add_calls empty_world"
    unfolding gap_run by (simp add: empty_world_def)
  from index_pdf_ids [OF run reached] obtain pages chunks args where
    p: "read_pages stub_services gap_pages = Inr pages"
    and c: "chunk_text (load_pdf_text pages) 800 120 = Some chunks"
    and a: "add_calls (snd ?run) = add_calls empty_world @ [args]"
      "add_documents args = map (\<lambda>i. chunks ! i) (kept_indices chunks)"
      "add_ids args =
        map (\<lambda>i. path_stem stub_services (ascii ''inv.pdf'') @ ascii ''_'' @ str_of_nat i)
          (kept_indices chunks)"
      "add_metadatas args =
        map (\<lambda>i. \<lparr>source = ascii ''inv.pdf'', chunk = i\<rparr>) (kept_indices chunks)"
    by blast
  from p have "pages = gap_pages" by (simp add: stub_fields)
  with c have "chunks = gap_chunks" by (simp add: chunk_text_gap)
  with a have "add_calls (snd ?run) = [args]"
    "add_documents args = [gap_chunks ! 0, gap_chunks ! 2]"
    "add_ids args = [ascii ''inv_0'', ascii ''inv_2'']"
    "add_metadatas args =
       [\<lparr>source = ascii ''inv.pdf'', chunk = 0\<rparr>, \<lparr>source = ascii ''inv.pdf'', chunk = 2\<rparr>]"
    by (simp_all add: kept_gap empty_world_def stub_services_def str_of_nat.simps ascii_def)
  then show ?thesis by blast
qed

subsection \<open>The lengths passed to the store\<close>

text \<open>
  Claim C10. Let the embedding service return one vector per input text, as its
  interface says. Then in every call of \<open>index_pdf\<close> that reaches \<^verbatim>\<open>collection.add\<close>,
  the documents, metadatas, embeddings and ids passed all have the length \<open>n\<close>, the
  number of non-blank chunks, and \<open>index_pdf\<close> returns \<open>n\<close> unless \<^verbatim>\<open>add\<close> itself raises.
\<close>

theorem index_pdf_add_lengths:
  assumes contract:
      "\<And>xs vectors. embeddings_create sv (Batch xs) = Inr vectors \<Longrightarrow> length vectors = length xs"
    and run: "index_pdf sv pdf filename w = (r, w')"
    and reached: "add_calls w' \<noteq> add_calls w"
  shows "\<exists>pages chunks args n.
     read_pages sv pdf = Inr pages \<and>
     chunk_text (load_pdf_text pages) 800 120 = Some chunks \<and>
     n = length (filter (\<lambda>c. py_strip c \<noteq> []) chunks) \<and>
     add_calls w' = add_calls w @ [args] \<and>
     length (add_documents args) = n \<and>
     length (add_metadatas args) = n \<and>
     length (add_embeddings args) = n \<and>
     length (add_ids args) = n \<and>
     (case coll_add sv args (collection w) of
        Inl e \<Rightarrow> r = Raises e
      | Inr s \<Rightarrow> r = Returns n)"
proof -
  from index_pdf_add_call [OF run reached] obtain pages chunks vectors where
    p: "read_pages sv pdf = Inr pages"
    and c: "chunk_text (load_pdf_text pages) 800 120 = Some chunks"
    and e: "embeddings_create sv (Batch (map (\<lambda>i. chunks ! i) (kept_indices chunks)))
        = Inr vectors"
    and a: "add_calls w' = add_calls w @ [index_args sv filename chunks vectors]"
    and r: "case coll_add sv (index_args sv filename chunks vectors) (collection w) of
        Inl e \<Rightarrow> r = Raises e
      | Inr s \<Rightarrow> r = Returns (length (kept_indices chunks))"
    by blast
  from contract [OF e] have v: "length vectors = length (kept_indices chunks)" by simp
  show ?thesis
    using p c a r v
    by (intro exI [of _ pages] exI [of _ chunks]
        exI [of _ "index_args sv filename chunks vectors"]
        exI [of _ "length (kept_indices chunks)"])
      (simp add: index_args_def length_kept_indices)
qed

theorem index_pdf_add_lengths_witness:
  "\<exists>args. index_pdf stub_services gap_pages (ascii ''inv.pdf'') empty_world =
       (Returns 2,
        \<lparr>collection = [(ascii ''inv_0'', gap_chunks ! 0), (ascii ''inv_2'', gap_chunks ! 2)],
         embed_calls = [Batch [gap_chunks ! 0, gap_chunks ! 2]],
         add_calls = [args]\<rparr>) \<and>
     length (add_documents args) = 2 \<and>
     length (add_metadatas args) = 2 \<and>
     length (add_embeddings args) = 2 \<and>
     length (add_ids args) = 2"
proof -
  let ?w = "\<lparr>collection = [(ascii ''inv_0'', gap_chunks ! 0), (ascii ''inv_2'', gap_chunks ! 2)],
         embed_calls = [Batch [gap_chunks ! 0, gap_chunks ! 2]],
         add_calls = [gap_args]\<rparr>"
  have contract: "\<And>xs vectors. embeddings_create stub_services (Batch xs) = Inr vectors
      \<Longrightarrow> length vectors = length xs"
    by (auto simp: stub_fields)
  have reached: "add_calls ?w \<noteq> add_calls empty_world"
    by (simp add: empty_world_def)
  from index_pdf_add_lengths [OF contract gap_run reached] obtain pages chunks args n where
    p: "read_pages stub_services gap_pages = Inr pages"
    and c: "chunk_text (load_pdf_text pages) 800 120 = Some chunks"
    and n: "n = length (filter (\<lambda>c. py_strip c \<noteq> []) chunks)"
    and a: "add_calls ?w = add_calls empty_world @ [args]"
    and l: "length (add_documents args) = n" "length (add_metadatas args) = n"
      "length (add_embeddings args) = n" "length (add_ids args) = n"
    by blast
  from p have "pages = gap_pages" by (simp add: stub_fields)
  with c have "chunks = gap_chunks" by (simp add: chunk_text_gap)
  with n have "n = 2"
    by (simp add: length_kept_indices [symmetric] kept_gap)
  moreover from a have "args = gap_args" by (simp add: empty_world_def)
  ultimately show ?thesis using l gap_run by auto
qed

subsection \<open>A text of 2000 characters\<close>

text \<open>
  Claim C5, as the code has it. An extracted text of 2000 characters has exactly the
  three chunks \<^verbatim>\<open>text[0:800]\<close>, \<^verbatim>\<open>text[680:1480]\<close> and \<^verbatim>\<open>text[1360:2000]\<close>. When none of
  them is blank and the embedding call returns, \<open>index_pdf\<close> passes the three to the
  store with the ids \<^verbatim>\<open>stem_0\<close>, \<^verbatim>\<open>stem_1\<close>, \<^verbatim>\<open>stem_2\<close>.
\<close>

theorem index_pdf_2000:
  assumes read: "read_pages sv pdf = Inr pages"
    and len: "length (load_pdf_text pages) = 2000"
    and chunks: "chunks = [take 800 (load_pdf_text pages),
        take 800 (drop 680 (load_pdf_text pages)), drop 1360 (load_pdf_text pages)]"
    and nonblank: "\<forall>c\<in>set chunks. py_strip c \<noteq> []"
    and embedded: "embeddings_create sv (Batch chunks) = Inr vectors"
  shows "chunk_text (load_pdf_text pages) 800 120 = Some chunks \<and>
     length chunks = 3 \<and>
     (\<exists>r w' args.
        index_pdf sv pdf filename w = (r, w') \<and>
        add_calls w' = add_calls w @ [args] \<and>
        add_documents args = chunks \<and>
        add_ids args =
          [path_stem sv filename @ ascii ''_0'', path_stem sv filename @ ascii ''_1'',
           path_stem sv filename @ ascii ''_2''])"
proof -
  from len chunks have c: "chunk_text (load_pdf_text pages) 800 120 = Some chunks"
    by (simp add: chunk_text_2000)
  from chunks nonblank have k: "kept_indices chunks = [0, 1, 2]"
    by (simp add: kept_indices_3)
  then have k0: "kept_indices chunks \<noteq> []" by simp
  from chunks k have m: "map (\<lambda>i. chunks ! i) (kept_indices chunks) = chunks"
    by simp
  with embedded have
    e: "embeddings_create sv (Batch (map (\<lambda>i. chunks ! i) (kept_indices chunks))) = Inr vectors"
    by simp
  have "\<exists>r w'. index_pdf sv pdf filename w = (r, w') \<and>
     add_calls w' = add_calls w @ [index_args sv filename chunks vectors]"
    by (subst index_pdf_embedded [OF read c k0 e]) (simp split: sum.splits)
  moreover have "add_documents (index_args sv filename chunks vectors) = chunks"
    using m by (simp add: index_args_def)
  moreover have "add_ids (index_args sv filename chunks vectors) =
      [path_stem sv filename @ ascii ''_0'', path_stem sv filename @ ascii ''_1'',
       path_stem sv filename @ ascii ''_2'']"
    using k by (simp add: index_args_def chunk_id_digits)
  ultimately show ?thesis using c chunks by auto
qed

theorem index_pdf_2000_witness:
  "length (load_pdf_text full_pages) = 2000 \<and>
   chunk_text (load_pdf_text full_pages) 800 120 = Some full_chunks \<and>
   length full_chunks = 3 \<and>
   (\<exists>r w' args.
      index_pdf stub_services full_pages (ascii ''inv.pdf'') empty_world = (r, w') \<and>
      add_calls w' = [args] \<and>
      add_documents args = full_chunks \<and>
      add_ids args = [ascii ''inv_0'', ascii ''inv_1'', ascii ''inv_2''])"
proof -
  have read: "read_pages stub_services full_pages = Inr full_pages"
    by (simp add: stub_fields)
  have len: "length (load_pdf_text full_pages) = 2000"
    by (simp add: load_full_pages ascii_def)
  have nonblank: "\<forall>c\<in>set full_chunks. py_strip c \<noteq> []"
    by (simp add: full_chunks_def load_full_pages py_strip_Nil_iff isspace_def ascii_def)
  have embedded: "embeddings_create stub_services (Batch full_chunks) = Inr (map length full_chunks)"
    by (simp add: stub_fields)
  have stem: "path_stem stub_services (ascii ''inv.pdf'') @ ascii ''_0'' = ascii ''inv_0''"
    "path_stem stub_services (ascii ''inv.pdf'') @ ascii ''_1'' = ascii ''inv_1''"
    "path_stem stub_services (ascii ''inv.pdf'') @ ascii ''_2'' = ascii ''inv_2''"
    by (simp_all add: stub_services_def ascii_def)
  from index_pdf_2000 [OF read len full_chunks_def nonblank embedded,
      of "ascii ''inv.pdf''" empty_world] len
  show ?thesis
    unfolding stem by (simp add: empty_world_def)
qed

text \<open>
  A blank chunk gets no id. The page of \<open>gap_pages\<close> gives a text of 2000 characters
  whose second chunk is 800 spaces: \<open>index_pdf\<close> returns 2 and the ids are
  \<^verbatim>\<open>inv_0\<close> and \<^verbatim>\<open>inv_2\<close>.
\<close>

theorem index_pdf_2000_counterexample:
  "length (load_pdf_text gap_pages) = 2000 \<and>
   chunk_text (load_pdf_text gap_pages) 800 120 = Some gap_chunks \<and>
   py_strip (gap_chunks ! 1) = [] \<and>
   fst (index_pdf stub_services gap_pages (ascii ''inv.pdf'') empty_world) = Returns 2 \<and>
   map add_ids (add_calls (snd (index_pdf stub_services gap_pages (ascii ''inv.pdf'') empty_world)))
     = [[ascii ''inv_0'', ascii ''inv_2'']]"
proof -
  have "length (load_pdf_text gap_pages) = 2000"
    by (simp add: load_gap_pages ascii_def)
  moreover have "py_strip (gap_chunks ! 1) = []"
    by (simp add: gap_chunks_def py_strip_Nil_iff isspace_def)
  ultimately show ?thesis
    by (simp add: chunk_text_gap gap_run gap_args_def)
qed

end
